theory Spec2Isabelle
  imports Complex_Main
begin

section \<open>EcoPort alert engine: the data model\<close>

text \<open>
  The engine of \<^verbatim>\<open>simple_ecoport.py\<close> (class \<^verbatim>\<open>AlertEngine\<close>) reads a snapshot
  (a Python dict) and a trailing history (a list of such dicts), compares the readings
  with the thresholds of \<^verbatim>\<open>Config.ALERT_THRESHOLDS\<close> and appends alerts (dicts again)
  to \<^verbatim>\<open>self.active_alerts\<close>.

  Numbers: the readings are Python floats and ints. They are modelled as \<^typ>\<open>real\<close>,
  so comparisons and arithmetic are exact; rounding of binary floating point is outside
  the model. What a division by zero does is written out: a Python float divided by zero
  raises \<^verbatim>\<open>ZeroDivisionError\<close>, a numpy \<^verbatim>\<open>float64\<close> divided by zero is
  \<^verbatim>\<open>inf\<close>, \<^verbatim>\<open>-inf\<close> or \<^verbatim>\<open>nan\<close>.
\<close>

subsection \<open>Snapshots\<close>

text \<open>The keys of a snapshot dict, as \<^verbatim>\<open>DynamicDataGenerator\<close> writes them.\<close>

datatype key =
    Timestamp
  | CarbonEmission
  | EnergyConsumption
  | EnergyEfficiency
  | VesselCount
  | RenewableRatio
  | EsgScore
  | Terminal1Power
  | Terminal2Power
  | Terminal3Power
  | WeatherWindSpeed
  | AirQualityAqi

text \<open>
  A snapshot is a dict: a key may be missing, and \<^verbatim>\<open>d[key]\<close> then raises
  \<^verbatim>\<open>KeyError\<close>. The timestamp is an instant, kept as a number.
\<close>

type_synonym snapshot = "key \<Rightarrow> real option"

datatype exn = KeyError key | ZeroDivisionError

subsection \<open>Thresholds\<close>

text \<open>
  \<^verbatim>\<open>Config.ALERT_THRESHOLDS\<close>: a class-level dict that always holds these seven keys
  (the sliders of the side bar assign to existing keys only).
\<close>

record thresholds =
  carbon_emission_high :: real
  carbon_emission_critical :: real
  energy_efficiency_low :: real
  energy_consumption_spike :: real
  vessel_congestion :: real
  esg_score_low :: real
  renewable_ratio_low :: real

definition ALERT_THRESHOLDS :: thresholds where
  "ALERT_THRESHOLDS =
     \<lparr>carbon_emission_high = 1200, carbon_emission_critical = 1500,
      energy_efficiency_low = 70, energy_consumption_spike = 13 / 10,
      vessel_congestion = 250, esg_score_low = 60, renewable_ratio_low = 15\<rparr>"

subsection \<open>Alerts\<close>

datatype alert_type = Error | Warning | Info

datatype priority = Critical | High | Medium | Low

datatype category =
    Emission | Trend | Efficiency | Consumption | Renewable | Equipment
  | Weather | Environment | Operation | Esg | Prediction

datatype terminal = Terminal1 | Terminal2 | Terminal3

datatype aqi_level = Unhealthy | UnhealthySensitive

text \<open>A numpy \<^verbatim>\<open>float64\<close> result: a number, an infinity or not-a-number.\<close>

datatype fnum = Fin real | PosInf | NegInf | NaN

text \<open>
  The text of an alert. \<^verbatim>\<open>title\<close>, \<^verbatim>\<open>message\<close> and \<^verbatim>\<open>recommendation\<close> are
  f-strings whose literal parts are fixed by the rule that builds the alert; what varies
  is the numbers formatted into the message (and the terminal's name). One constructor
  per alert of the source, carrying those numbers in the order of the f-string.
\<close>

datatype message =
    CarbonCriticalMsg real real
  | CarbonHighMsg real real
  | CarbonRisingMsg real
  | EfficiencyLowMsg real real
  | ConsumptionSpikeMsg real fnum
  | RenewableLowMsg real real
  | TerminalHighMsg terminal real
  | TerminalLowMsg terminal real
  | StrongWindMsg real
  | AirQualityMsg real aqi_level
  | CongestionMsg real
  | VesselsRisingMsg real
  | EsgLowMsg real real
  | PredictionMsg real

record alert =
  atype :: alert_type
  priority :: priority
  message :: message
  timestamp :: real
  category :: category

text \<open>
  A check appends to \<^verbatim>\<open>self.active_alerts\<close> and may raise part-way. Its outcome is
  the alerts it appended, in order, and the exception that stopped it, if any.
\<close>

type_synonym outcome = "alert list \<times> exn option"

definition done_nothing :: outcome where
  "done_nothing = ([], None)"

definition raise :: "exn \<Rightarrow> outcome" where
  "raise e = ([], Some e)"

text \<open>Two statements in sequence: the second runs only when the first did not raise.\<close>

fun then_do :: "outcome \<Rightarrow> outcome \<Rightarrow> outcome" where
  "then_do (as, Some e) _ = (as, Some e)"
| "then_do (as, None) (bs, r) = (as @ bs, r)"

text \<open>\<^verbatim>\<open>v = d[key]\<close>, then the rest.\<close>

definition with_field :: "snapshot \<Rightarrow> key \<Rightarrow> (real \<Rightarrow> outcome) \<Rightarrow> outcome" where
  "with_field d k f = (case d k of None \<Rightarrow> raise (KeyError k) | Some v \<Rightarrow> f v)"

text \<open>
  \<^verbatim>\<open>self.active_alerts.append({..., 'timestamp': current_data['timestamp'], ...})\<close>:
  the only lookup in the dict display is the timestamp's.
\<close>

definition emit :: "snapshot \<Rightarrow> (real \<Rightarrow> alert) \<Rightarrow> outcome" where
  "emit current_data mk = with_field current_data Timestamp (\<lambda>ts. ([mk ts], None))"

text \<open>\<^verbatim>\<open>[d[key] for d in ds]\<close>: the first missing key raises.\<close>

fun read_all :: "snapshot list \<Rightarrow> key \<Rightarrow> exn + real list" where
  "read_all [] k = Inr []"
| "read_all (d # ds) k =
     (case d k of
        None \<Rightarrow> Inl (KeyError k)
      | Some v \<Rightarrow> (case read_all ds k of Inl e \<Rightarrow> Inl e | Inr vs \<Rightarrow> Inr (v # vs)))"

text \<open>\<^verbatim>\<open>xs[-n:]\<close> for \<open>n > 0\<close>: the last \<open>n\<close> elements, all of them when there are fewer.\<close>

definition last_n :: "nat \<Rightarrow> 'a list \<Rightarrow> 'a list" where
  "last_n n xs = drop (length xs - n) xs"

text \<open>\<^verbatim>\<open>all(xs[i] < xs[i+1] for i in range(len(xs)-1))\<close>\<close>

fun strictly_increasing :: "real list \<Rightarrow> bool" where
  "strictly_increasing [] = True"
| "strictly_increasing [x] = True"
| "strictly_increasing (x # y # zs) = (x < y \<and> strictly_increasing (y # zs))"

section \<open>The checks\<close>

subsection \<open>Carbon emission\<close>

definition carbon_level :: "thresholds \<Rightarrow> snapshot \<Rightarrow> real \<Rightarrow> outcome" where
  "carbon_level thr current_data emission =
     (if emission > carbon_emission_critical thr then
        emit current_data (\<lambda>ts.
          \<lparr>atype = Error, priority = Critical,
           message = CarbonCriticalMsg emission (carbon_emission_critical thr),
           timestamp = ts, category = Emission\<rparr>)
      else if emission > carbon_emission_high thr then
        emit current_data (\<lambda>ts.
          \<lparr>atype = Warning, priority = High,
           message = CarbonHighMsg emission (carbon_emission_high thr),
           timestamp = ts, category = Emission\<rparr>)
      else done_nothing)"

text \<open>
  The trend part. \<open>recent_emissions\<close> has three elements here, so \<open>hd\<close> and \<open>last\<close>
  are its elements 0 and -1. The quotient is one of Python floats: a zero divisor raises.
\<close>

definition carbon_trend :: "snapshot \<Rightarrow> snapshot list \<Rightarrow> outcome" where
  "carbon_trend current_data trend_data =
     (if length trend_data \<ge> 3 then
        (case read_all (last_n 3 trend_data) CarbonEmission of
           Inl e \<Rightarrow> raise e
         | Inr recent_emissions \<Rightarrow>
             if strictly_increasing recent_emissions then
               (if hd recent_emissions = 0 then raise ZeroDivisionError
                else
                  let increase_rate =
                        (last recent_emissions - hd recent_emissions) / hd recent_emissions * 100
                  in if increase_rate > 15 then
                       emit current_data (\<lambda>ts.
                         \<lparr>atype = Warning, priority = Medium,
                          message = CarbonRisingMsg increase_rate,
                          timestamp = ts, category = Trend\<rparr>)
                     else done_nothing)
             else done_nothing)
      else done_nothing)"

definition check_carbon_emission_alerts ::
  "thresholds \<Rightarrow> snapshot \<Rightarrow> snapshot list \<Rightarrow> outcome" where
  "check_carbon_emission_alerts thr current_data trend_data =
     with_field current_data CarbonEmission (\<lambda>emission.
       then_do (carbon_level thr current_data emission)
               (carbon_trend current_data trend_data))"

subsection \<open>Energy\<close>

definition efficiency_low :: "thresholds \<Rightarrow> snapshot \<Rightarrow> real \<Rightarrow> outcome" where
  "efficiency_low thr current_data efficiency =
     (if efficiency < energy_efficiency_low thr then
        emit current_data (\<lambda>ts.
          \<lparr>atype = Warning, priority = Medium,
           message = EfficiencyLowMsg efficiency (energy_efficiency_low thr),
           timestamp = ts, category = Efficiency\<rparr>)
      else done_nothing)"

text \<open>\<^verbatim>\<open>np.mean\<close> of a non-empty list.\<close>

definition np_mean :: "real list \<Rightarrow> real" where
  "np_mean xs = sum_list xs / real (length xs)"

text \<open>
  \<^verbatim>\<open>consumption / avg_consumption\<close>: the divisor is a numpy \<^verbatim>\<open>float64\<close> (the result
  of \<^verbatim>\<open>np.mean\<close>), so the quotient is numpy's and a zero divisor does not raise.
\<close>

definition np_div :: "real \<Rightarrow> real \<Rightarrow> fnum" where
  "np_div x y =
     (if y \<noteq> 0 then Fin (x / y)
      else if x > 0 then PosInf else if x < 0 then NegInf else NaN)"

text \<open>\<^verbatim>\<open>(consumption/avg_consumption - 1) * 100\<close>\<close>

definition percent_over :: "real \<Rightarrow> real \<Rightarrow> fnum" where
  "percent_over consumption avg_consumption =
     (case np_div consumption avg_consumption of
        Fin q \<Rightarrow> Fin ((q - 1) * 100)
      | PosInf \<Rightarrow> PosInf
      | NegInf \<Rightarrow> NegInf
      | NaN \<Rightarrow> NaN)"

text \<open>\<^verbatim>\<open>trend_data[:-1]\<close> is \<open>butlast\<close>; it is not empty when there are two samples.\<close>

definition consumption_spike ::
  "thresholds \<Rightarrow> snapshot \<Rightarrow> snapshot list \<Rightarrow> real \<Rightarrow> outcome" where
  "consumption_spike thr current_data trend_data consumption =
     (if length trend_data \<ge> 2 then
        (case read_all (butlast trend_data) EnergyConsumption of
           Inl e \<Rightarrow> raise e
         | Inr cs \<Rightarrow>
             let avg_consumption = np_mean cs
             in if consumption > avg_consumption * energy_consumption_spike thr then
                  emit current_data (\<lambda>ts.
                    \<lparr>atype = Error, priority = High,
                     message = ConsumptionSpikeMsg consumption
                                 (percent_over consumption avg_consumption),
                     timestamp = ts, category = Consumption\<rparr>)
                else done_nothing)
      else done_nothing)"

definition renewable_low :: "thresholds \<Rightarrow> snapshot \<Rightarrow> real \<Rightarrow> outcome" where
  "renewable_low thr current_data renewable =
     (if renewable < renewable_ratio_low thr then
        emit current_data (\<lambda>ts.
          \<lparr>atype = Info, priority = Low,
           message = RenewableLowMsg renewable (renewable_ratio_low thr),
           timestamp = ts, category = Renewable\<rparr>)
      else done_nothing)"

definition check_energy_alerts ::
  "thresholds \<Rightarrow> snapshot \<Rightarrow> snapshot list \<Rightarrow> outcome" where
  "check_energy_alerts thr current_data trend_data =
     with_field current_data EnergyEfficiency (\<lambda>efficiency.
     with_field current_data EnergyConsumption (\<lambda>consumption.
     with_field current_data RenewableRatio (\<lambda>renewable.
       then_do (efficiency_low thr current_data efficiency)
      (then_do (consumption_spike thr current_data trend_data consumption)
               (renewable_low thr current_data renewable)))))"

subsection \<open>Equipment\<close>

definition terminal_power :: "snapshot \<Rightarrow> terminal \<Rightarrow> real \<Rightarrow> outcome" where
  "terminal_power current_data terminal pw =
     (if pw > 700 then
        emit current_data (\<lambda>ts.
          \<lparr>atype = Warning, priority = Medium,
           message = TerminalHighMsg terminal pw,
           timestamp = ts, category = Equipment\<rparr>)
      else if pw < 100 then
        emit current_data (\<lambda>ts.
          \<lparr>atype = Info, priority = Low,
           message = TerminalLowMsg terminal pw,
           timestamp = ts, category = Equipment\<rparr>)
      else done_nothing)"

text \<open>The dict \<open>terminals\<close> is built first (three lookups), then iterated in insertion order.\<close>

definition check_equipment_alerts :: "snapshot \<Rightarrow> outcome" where
  "check_equipment_alerts current_data =
     with_field current_data Terminal1Power (\<lambda>p1.
     with_field current_data Terminal2Power (\<lambda>p2.
     with_field current_data Terminal3Power (\<lambda>p3.
       then_do (terminal_power current_data Terminal1 p1)
      (then_do (terminal_power current_data Terminal2 p2)
               (terminal_power current_data Terminal3 p3)))))"

subsection \<open>Environment\<close>

definition strong_wind :: "snapshot \<Rightarrow> real \<Rightarrow> outcome" where
  "strong_wind current_data wind_speed =
     (if wind_speed > 20 then
        emit current_data (\<lambda>ts.
          \<lparr>atype = Warning, priority = Medium,
           message = StrongWindMsg wind_speed,
           timestamp = ts, category = Weather\<rparr>)
      else done_nothing)"

definition air_quality :: "snapshot \<Rightarrow> real \<Rightarrow> outcome" where
  "air_quality current_data aqi =
     (if aqi > 100 then
        emit current_data (\<lambda>ts.
          \<lparr>atype = Warning, priority = Medium,
           message = AirQualityMsg aqi (if aqi > 150 then Unhealthy else UnhealthySensitive),
           timestamp = ts, category = Environment\<rparr>)
      else done_nothing)"

definition check_environmental_alerts :: "snapshot \<Rightarrow> outcome" where
  "check_environmental_alerts current_data =
     with_field current_data WeatherWindSpeed (\<lambda>wind_speed.
     with_field current_data AirQualityAqi (\<lambda>aqi.
       then_do (strong_wind current_data wind_speed)
               (air_quality current_data aqi)))"

subsection \<open>Operation\<close>

definition congestion :: "thresholds \<Rightarrow> snapshot \<Rightarrow> real \<Rightarrow> outcome" where
  "congestion thr current_data vessel_count =
     (if vessel_count > vessel_congestion thr then
        emit current_data (\<lambda>ts.
          \<lparr>atype = Warning, priority = High,
           message = CongestionMsg vessel_count,
           timestamp = ts, category = Operation\<rparr>)
      else done_nothing)"

definition vessel_trend :: "snapshot \<Rightarrow> snapshot list \<Rightarrow> real \<Rightarrow> outcome" where
  "vessel_trend current_data trend_data vessel_count =
     (if length trend_data \<ge> 4 then
        (case read_all (last_n 4 trend_data) VesselCount of
           Inl e \<Rightarrow> raise e
         | Inr recent_vessels \<Rightarrow>
             if strictly_increasing recent_vessels then
               emit current_data (\<lambda>ts.
                 \<lparr>atype = Info, priority = Medium,
                  message = VesselsRisingMsg vessel_count,
                  timestamp = ts, category = Trend\<rparr>)
             else done_nothing)
      else done_nothing)"

definition check_operational_alerts ::
  "thresholds \<Rightarrow> snapshot \<Rightarrow> snapshot list \<Rightarrow> outcome" where
  "check_operational_alerts thr current_data trend_data =
     with_field current_data VesselCount (\<lambda>vessel_count.
       then_do (congestion thr current_data vessel_count)
               (vessel_trend current_data trend_data vessel_count))"

subsection \<open>ESG\<close>

definition check_esg_alerts :: "thresholds \<Rightarrow> snapshot \<Rightarrow> outcome" where
  "check_esg_alerts thr current_data =
     with_field current_data EsgScore (\<lambda>esg_score.
       if esg_score < esg_score_low thr then
         emit current_data (\<lambda>ts.
           \<lparr>atype = Warning, priority = Medium,
            message = EsgLowMsg esg_score (esg_score_low thr),
            timestamp = ts, category = Esg\<rparr>)
       else done_nothing)"

subsection \<open>Prediction\<close>

text \<open>
  \<^verbatim>\<open>np.polyfit(x, y, 1)\<close> returns the coefficients (slope, intercept) of the
  least-squares line through the points. numpy is not part of the repository; its result
  is modelled by the closed form of the least-squares solution, which is exact over the
  reals (lemma \<open>polyfit1_normal_equations\<close> below: the residuals are orthogonal to the
  constant and to \<open>x\<close>).
\<close>

definition polyfit1 :: "real list \<Rightarrow> real list \<Rightarrow> real \<times> real" where
  "polyfit1 xs ys =
     (let n = real (length xs);
          sx = sum_list xs;
          sy = sum_list ys;
          sxx = sum_list (map (\<lambda>x. x * x) xs);
          sxy = sum_list (map (\<lambda>(x, y). x * y) (zip xs ys));
          slope = (n * sxy - sx * sy) / (n * sxx - sx * sx);
          intercept = (sy - slope * sx) / n
      in (slope, intercept))"

text \<open>\<^verbatim>\<open>np.arange(n)\<close>\<close>

definition np_arange :: "nat \<Rightarrow> real list" where
  "np_arange n = map real [0..<n]"

text \<open>
  \<^verbatim>\<open>coefficients[0] * (len(emissions) + 2) + coefficients[1]\<close>
\<close>

definition future_emission :: "real list \<Rightarrow> real" where
  "future_emission emissions =
     (let coefficients = polyfit1 (np_arange (length emissions)) emissions
      in fst coefficients * (real (length emissions) + 2) + snd coefficients)"

text \<open>The timestamp of this alert is \<^verbatim>\<open>datetime.now()\<close>, a parameter here.\<close>

definition check_predictive_alerts ::
  "thresholds \<Rightarrow> real \<Rightarrow> snapshot list \<Rightarrow> outcome" where
  "check_predictive_alerts thr now trend_data =
     (if length trend_data \<ge> 6 then
        (case read_all trend_data CarbonEmission of
           Inl e \<Rightarrow> raise e
         | Inr emissions \<Rightarrow>
             if future_emission emissions > carbon_emission_high thr then
               ([\<lparr>atype = Info, priority = Medium,
                  message = PredictionMsg (future_emission emissions),
                  timestamp = now, category = Prediction\<rparr>], None)
             else done_nothing)
      else done_nothing)"

section \<open>The engine\<close>

record engine =
  active_alerts :: "alert list"
  alert_history :: "alert list"

text \<open>\<^verbatim>\<open>AlertEngine.__init__\<close>\<close>

definition new_engine :: engine where
  "new_engine = \<lparr>active_alerts = [], alert_history = []\<rparr>"

text \<open>
  \<^verbatim>\<open>_update_alert_history\<close>: every active alert is appended, then the history is cut
  to its last 50 entries.
\<close>

definition update_alert_history :: "engine \<Rightarrow> engine" where
  "update_alert_history eng =
     (let h = alert_history eng @ active_alerts eng
      in eng\<lparr>alert_history := (if length h > 50 then last_n 50 h else h)\<rparr>)"

text \<open>The seven checks of \<^verbatim>\<open>analyze_and_generate_alerts\<close>, in its order.\<close>

definition run_checks ::
  "thresholds \<Rightarrow> real \<Rightarrow> snapshot \<Rightarrow> snapshot list \<Rightarrow> outcome" where
  "run_checks thr now current_data trend_data =
     then_do (check_carbon_emission_alerts thr current_data trend_data)
    (then_do (check_energy_alerts thr current_data trend_data)
    (then_do (check_equipment_alerts current_data)
    (then_do (check_environmental_alerts current_data)
    (then_do (check_operational_alerts thr current_data trend_data)
    (then_do (check_esg_alerts thr current_data)
             (check_predictive_alerts thr now trend_data))))))"

text \<open>
  \<^verbatim>\<open>analyze_and_generate_alerts\<close>. \<open>current_data\<close> and \<open>trend_data\<close> are what
  \<^verbatim>\<open>get_latest_data()\<close> and \<^verbatim>\<open>get_trend_data()\<close> returned; \<open>thr\<close> is the value of
  the global thresholds during the call. The result is the list returned, or the
  exception raised, and the engine afterwards: an exception leaves the alerts appended so
  far in \<open>active_alerts\<close> and does not reach \<^verbatim>\<open>_update_alert_history\<close>.
\<close>

definition analyze_and_generate_alerts ::
  "thresholds \<Rightarrow> real \<Rightarrow> snapshot \<Rightarrow> snapshot list \<Rightarrow> engine \<Rightarrow> (exn + alert list) \<times> engine" where
  "analyze_and_generate_alerts thr now current_data trend_data eng =
     (case run_checks thr now current_data trend_data of
        (alerts, Some e) \<Rightarrow> (Inl e, eng\<lparr>active_alerts := alerts\<rparr>)
      | (alerts, None) \<Rightarrow>
          (Inr alerts, update_alert_history (eng\<lparr>active_alerts := alerts\<rparr>)))"

text \<open>
  Evaluation cycles one after the other, each with its own thresholds, instant, snapshot
  and history; the engine is kept from one cycle to the next whether or not it raised.
\<close>

type_synonym cycle = "thresholds \<times> real \<times> snapshot \<times> snapshot list"

fun run_cycles :: "engine \<Rightarrow> cycle list \<Rightarrow> engine" where
  "run_cycles eng [] = eng"
| "run_cycles eng ((thr, now, current_data, trend_data) # cs) =
     run_cycles (snd (analyze_and_generate_alerts thr now current_data trend_data eng)) cs"

subsection \<open>Statistics\<close>

text \<open>
  \<^verbatim>\<open>d[k] = d.get(k, 0) + 1\<close> on a dict kept as an association list in insertion
  order: an existing key keeps its place, a new key goes last.
\<close>

fun bump :: "'k \<Rightarrow> ('k \<times> nat) list \<Rightarrow> ('k \<times> nat) list" where
  "bump k [] = [(k, 1)]"
| "bump k ((k', c) # rest) =
     (if k' = k then (k', c + 1) # rest else (k', c) # bump k rest)"

text \<open>The loop of \<^verbatim>\<open>get_alert_statistics\<close> over the three dicts.\<close>

fun count_alerts ::
  "alert list \<Rightarrow>
   (alert_type \<times> nat) list \<times> (category \<times> nat) list \<times> (priority \<times> nat) list \<Rightarrow>
   (alert_type \<times> nat) list \<times> (category \<times> nat) list \<times> (priority \<times> nat) list" where
  "count_alerts [] acc = acc"
| "count_alerts (a # as) (by_type, by_category, by_priority) =
     count_alerts as
       (bump (atype a) by_type, bump (category a) by_category, bump (priority a) by_priority)"

datatype stat_value =
    Total nat
  | ByType "(alert_type \<times> nat) list"
  | ByCategory "(category \<times> nat) list"
  | ByPriority "(priority \<times> nat) list"

text \<open>
  The dict returned by \<^verbatim>\<open>get_alert_statistics\<close>, as an association list: \<open>[]\<close> is
  \<^verbatim>\<open>{}\<close>.
\<close>

definition get_alert_statistics :: "engine \<Rightarrow> (string \<times> stat_value) list" where
  "get_alert_statistics eng =
     (if alert_history eng = [] then []
      else
        (case count_alerts (alert_history eng) ([], [], []) of
           (by_type, by_category, by_priority) \<Rightarrow>
             [(''total'', Total (length (alert_history eng))),
              (''by_type'', ByType by_type),
              (''by_category'', ByCategory by_category),
              (''by_priority'', ByPriority by_priority)]))"

subsection \<open>Auxiliary notions for the statements\<close>


text \<open>
  A snapshot inside every documented range on which no rule fires under the default
  thresholds; the concrete evaluations below start from it.
\<close>

definition quiet_snapshot :: snapshot where
  "quiet_snapshot k =
     (case k of
        Timestamp \<Rightarrow> Some 0
      | CarbonEmission \<Rightarrow> Some 1000
      | EnergyConsumption \<Rightarrow> Some 1000
      | EnergyEfficiency \<Rightarrow> Some 80
      | VesselCount \<Rightarrow> Some 100
      | RenewableRatio \<Rightarrow> Some 20
      | EsgScore \<Rightarrow> Some 80
      | Terminal1Power \<Rightarrow> Some 400
      | Terminal2Power \<Rightarrow> Some 300
      | Terminal3Power \<Rightarrow> Some 500
      | WeatherWindSpeed \<Rightarrow> Some 10
      | AirQualityAqi \<Rightarrow> Some 50)"

text \<open>A history sample whose every reading is \<open>v\<close>.\<close>

definition flat_sample :: "real \<Rightarrow> snapshot" where
  "flat_sample v = (\<lambda>k. Some v)"

section \<open>Properties\<close>

subsection \<open>Reading the history\<close>

lemma read_all_length: "read_all ds k = Inr vs \<Longrightarrow> length vs = length ds"
  by (induction ds arbitrary: vs) (auto split: option.splits sum.splits)

lemma read_all_drop: "read_all ds k = Inr vs \<Longrightarrow> read_all (drop n ds) k = Inr (drop n vs)"
proof (induction ds arbitrary: vs n)
  case Nil
  then show ?case by simp
next
  case (Cons d ds)
  then show ?case
    by (cases n) (auto split: option.splits sum.splits)
qed

lemma read_all_take: "read_all ds k = Inr vs \<Longrightarrow> read_all (take n ds) k = Inr (take n vs)"
proof (induction ds arbitrary: vs n)
  case Nil
  then show ?case by simp
next
  case (Cons d ds)
  then show ?case
    by (cases n) (auto split: option.splits sum.splits)
qed

lemma read_all_butlast: "read_all ds k = Inr vs \<Longrightarrow> read_all (butlast ds) k = Inr (butlast vs)"
  by (simp add: butlast_conv_take read_all_take read_all_length)

lemma read_all_last_n: "read_all ds k = Inr vs \<Longrightarrow> read_all (last_n n ds) k = Inr (last_n n vs)"
  by (simp add: last_n_def read_all_drop read_all_length)

lemma emit_present: "current_data Timestamp = Some ts \<Longrightarrow> emit current_data mk = ([mk ts], None)"
  by (simp add: emit_def with_field_def)

subsection \<open>The carbon-emission level rule\<close>

text \<open>
  Claim C4. The check \<^verbatim>\<open>_check_carbon_emission_alerts\<close> runs the level rule on
  \<^verbatim>\<open>current_data['carbon_emission']\<close> and then the trend rule. For a snapshot whose
  emission is above \<open>carbon_emission_critical\<close> the level rule appends exactly one
  error/critical alert and no warning/high alert; for an emission above
  \<open>carbon_emission_high\<close> and not above \<open>carbon_emission_critical\<close> it appends exactly
  one warning/high alert; otherwise it appends nothing.
\<close>

theorem carbon_level_exclusive:
  assumes "current_data CarbonEmission = Some emission"
      and "current_data Timestamp = Some ts"
  shows "check_carbon_emission_alerts thr current_data trend_data =
           then_do (carbon_level thr current_data emission) (carbon_trend current_data trend_data)
         \<and> carbon_level thr current_data emission =
           (if emission > carbon_emission_critical thr then
              ([\<lparr>atype = Error, priority = Critical,
                 message = CarbonCriticalMsg emission (carbon_emission_critical thr),
                 timestamp = ts, category = Emission\<rparr>], None)
            else if carbon_emission_high thr < emission then
              ([\<lparr>atype = Warning, priority = High,
                 message = CarbonHighMsg emission (carbon_emission_high thr),
                 timestamp = ts, category = Emission\<rparr>], None)
            else ([], None))"
  using assms
  by (simp add: check_carbon_emission_alerts_def with_field_def carbon_level_def
      emit_present done_nothing_def)

theorem carbon_level_exclusive_witness:
  "check_carbon_emission_alerts ALERT_THRESHOLDS (\<lambda>k. Some 1600) [] =
     ([\<lparr>atype = Error, priority = Critical, message = CarbonCriticalMsg 1600 1500,
        timestamp = 1600, category = Emission\<rparr>], None)
   \<and> check_carbon_emission_alerts ALERT_THRESHOLDS (\<lambda>k. Some 1300) [] =
     ([\<lparr>atype = Warning, priority = High, message = CarbonHighMsg 1300 1200,
        timestamp = 1300, category = Emission\<rparr>], None)
   \<and> check_carbon_emission_alerts ALERT_THRESHOLDS (\<lambda>k. Some 1200) [] = ([], None)"
  using carbon_level_exclusive [of "\<lambda>k. Some 1600" 1600 1600 ALERT_THRESHOLDS "[]"]
        carbon_level_exclusive [of "\<lambda>k. Some 1300" 1300 1300 ALERT_THRESHOLDS "[]"]
        carbon_level_exclusive [of "\<lambda>k. Some 1200" 1200 1200 ALERT_THRESHOLDS "[]"]
  by (simp add: ALERT_THRESHOLDS_def carbon_trend_def done_nothing_def)

subsection \<open>The carbon-emission trend rule\<close>



subsection \<open>The energy-consumption spike rule\<close>



subsection \<open>The least-squares line\<close>

text \<open>
  The closed form of \<open>polyfit1\<close> is the least-squares line: its residuals sum to zero
  and are orthogonal to \<open>x\<close> (the normal equations), whenever the points have two
  distinct abscissae (the determinant is not zero).
\<close>

lemma residual_sum:
  "length xs = length ys \<Longrightarrow>
   sum_list (map (\<lambda>(x, y). y - (a * x + b)) (zip xs ys)) =
     sum_list ys - a * sum_list xs - b * real (length (xs :: real list))"
  by (induction xs ys rule: list_induct2) (simp_all add: algebra_simps)

lemma residual_moment:
  "length xs = length ys \<Longrightarrow>
   sum_list (map (\<lambda>(x, y). x * (y - (a * x + b))) (zip xs ys)) =
     sum_list (map (\<lambda>(x, y). x * y) (zip xs ys :: (real \<times> real) list))
       - a * sum_list (map (\<lambda>x. x * x) xs) - b * sum_list xs"
  by (induction xs ys rule: list_induct2) (simp_all add: algebra_simps)

lemma polyfit1_normal_equations:
  assumes len: "length xs = length ys"
      and det: "real (length xs) * sum_list (map (\<lambda>x. x * x) xs) - sum_list xs * sum_list xs \<noteq> 0"
      and fit: "polyfit1 xs ys = (a, b)"
  shows "sum_list (map (\<lambda>(x, y). y - (a * x + b)) (zip xs ys)) = 0"
    and "sum_list (map (\<lambda>(x, y). x * (y - (a * x + b))) (zip xs ys)) = 0"
proof -
  define n where "n = real (length xs)"
  define sx where "sx = sum_list xs"
  define sy where "sy = sum_list ys"
  define sxx where "sxx = sum_list (map (\<lambda>x. x * x) xs)"
  define sxy where "sxy = sum_list (map (\<lambda>(x, y). x * y) (zip xs ys))"
  have d: "n * sxx - sx * sx \<noteq> 0"
    using det by (simp add: n_def sxx_def sx_def)
  have n0: "n \<noteq> 0"
  proof
    assume "n = 0"
    then have "xs = []" by (simp add: n_def)
    with det show False by simp
  qed
  have a: "a = (n * sxy - sx * sy) / (n * sxx - sx * sx)"
    using fit by (simp add: polyfit1_def Let_def n_def sx_def sy_def sxx_def sxy_def)
  have b: "b = (sy - a * sx) / n"
    using fit by (auto simp add: polyfit1_def Let_def n_def sx_def sy_def sxx_def sxy_def)
  have 1: "sy - a * sx - b * n = 0"
    using n0 by (simp add: b)
  have "a * (n * sxx - sx * sx) = n * sxy - sx * sy"
    using d by (simp add: a)
  then have "n * (sxy - a * sxx) - sx * (sy - a * sx) = 0"
    by (simp add: algebra_simps)
  moreover have "sy - a * sx = b * n"
    using 1 by simp
  ultimately have "n * (sxy - a * sxx - b * sx) = 0"
    by (simp add: algebra_simps)
  then have 2: "sxy - a * sxx - b * sx = 0"
    using n0 by simp
  show "sum_list (map (\<lambda>(x, y). y - (a * x + b)) (zip xs ys)) = 0"
    using 1 by (simp add: residual_sum [OF len] n_def sx_def sy_def)
  show "sum_list (map (\<lambda>(x, y). x * (y - (a * x + b))) (zip xs ys)) = 0"
    using 2 by (simp add: residual_moment [OF len] sx_def sxx_def sxy_def)
qed





subsection \<open>The predictive rule\<close>




subsection \<open>Degenerate arithmetic\<close>

lemma percent_over_zero: "0 < consumption \<Longrightarrow> percent_over consumption 0 = PosInf"
  by (simp add: percent_over_def np_div_def)

text \<open>
  Claim C2, as the code has it: neither rule guards its divisor. With a zero baseline
  (the first of the last 3 emissions) the trend rule appends nothing, and it raises
  \<^verbatim>\<open>ZeroDivisionError\<close> exactly when the window is strictly increasing. With a zero
  mean of the history without its most recent sample the spike rule never raises; it
  appends its error/high alert exactly when the current consumption is positive, and the
  percentage it reports is infinite.
\<close>

theorem degenerate_arithmetic:
  assumes "current_data Timestamp = Some ts"
      and "read_all trend_data CarbonEmission = Inr emissions"
      and "read_all trend_data EnergyConsumption = Inr cs"
  shows "(length emissions \<ge> 3 \<and> hd (last_n 3 emissions) = 0 \<longrightarrow>
            carbon_trend current_data trend_data =
              (if strictly_increasing (last_n 3 emissions)
               then ([], Some ZeroDivisionError) else ([], None)))
         \<and> (length cs \<ge> 2 \<and> np_mean (butlast cs) = 0 \<longrightarrow>
            consumption_spike thr current_data trend_data consumption =
              (if consumption > 0
               then ([\<lparr>atype = Error, priority = High,
                        message = ConsumptionSpikeMsg consumption PosInf,
                        timestamp = ts, category = Consumption\<rparr>], None)
               else ([], None)))"
proof (intro conjI impI)
  assume "length emissions \<ge> 3 \<and> hd (last_n 3 emissions) = 0"
  then show "carbon_trend current_data trend_data =
              (if strictly_increasing (last_n 3 emissions)
               then ([], Some ZeroDivisionError) else ([], None))"
    using read_all_length [OF assms(2)] read_all_last_n [OF assms(2), of 3]
    by (simp add: carbon_trend_def raise_def done_nothing_def)
next
  assume "length cs \<ge> 2 \<and> np_mean (butlast cs) = 0"
  then show "consumption_spike thr current_data trend_data consumption =
              (if consumption > 0
               then ([\<lparr>atype = Error, priority = High,
                        message = ConsumptionSpikeMsg consumption PosInf,
                        timestamp = ts, category = Consumption\<rparr>], None)
               else ([], None))"
    using assms(1) read_all_length [OF assms(3)] read_all_butlast [OF assms(3)]
    by (simp add: consumption_spike_def emit_present done_nothing_def percent_over_zero)
qed

theorem degenerate_arithmetic_witness:
  "carbon_trend (flat_sample 0) [flat_sample 0, flat_sample 1, flat_sample 2] =
     ([], Some ZeroDivisionError)
   \<and> carbon_trend (flat_sample 0) [flat_sample 0, flat_sample 0, flat_sample 0] = ([], None)
   \<and> consumption_spike ALERT_THRESHOLDS (flat_sample 5)
        [flat_sample 0, flat_sample 0, flat_sample 0] 5 =
     ([\<lparr>atype = Error, priority = High, message = ConsumptionSpikeMsg 5 PosInf,
         timestamp = 5, category = Consumption\<rparr>], None)
   \<and> consumption_spike ALERT_THRESHOLDS (flat_sample 0)
        [flat_sample 0, flat_sample 0, flat_sample 0] 0 = ([], None)"
  using degenerate_arithmetic [of "flat_sample 0" 0 "[flat_sample 0, flat_sample 1, flat_sample 2]"
          "[0, 1, 2]" "[0, 1, 2]" ALERT_THRESHOLDS 0]
        degenerate_arithmetic [of "flat_sample 0" 0 "[flat_sample 0, flat_sample 0, flat_sample 0]"
          "[0, 0, 0]" "[0, 0, 0]" ALERT_THRESHOLDS 0]
        degenerate_arithmetic [of "flat_sample 5" 5 "[flat_sample 0, flat_sample 0, flat_sample 0]"
          "[0, 0, 0]" "[0, 0, 0]" ALERT_THRESHOLDS 5]
  by (simp add: flat_sample_def last_n_def np_mean_def)

text \<open>
  Against the claim: on the emissions 0, 1, 2 the trend rule raises, and so does the
  whole evaluation cycle; on a zero mean and the consumption 5 the spike rule appends an
  alert.
\<close>

theorem degenerate_arithmetic_counterexample:
  "carbon_trend (flat_sample 0) [flat_sample 0, flat_sample 1, flat_sample 2] =
     ([], Some ZeroDivisionError)
   \<and> fst (analyze_and_generate_alerts ALERT_THRESHOLDS 0 quiet_snapshot
        [flat_sample 0, flat_sample 1, flat_sample 2] new_engine) = Inl ZeroDivisionError
   \<and> consumption_spike ALERT_THRESHOLDS (flat_sample 5) [flat_sample 0, flat_sample 0] 5 =
     ([\<lparr>atype = Error, priority = High, message = ConsumptionSpikeMsg 5 PosInf,
         timestamp = 5, category = Consumption\<rparr>], None)"
  by (simp add: carbon_trend_def consumption_spike_def flat_sample_def last_n_def
      raise_def done_nothing_def emit_def with_field_def np_mean_def percent_over_def np_div_def
      analyze_and_generate_alerts_def run_checks_def check_carbon_emission_alerts_def
      carbon_level_def quiet_snapshot_def ALERT_THRESHOLDS_def)

subsection \<open>Sequencing\<close>


lemma then_do_snd: "snd (then_do a b) = (if snd a = None then snd b else snd a)"
  by (cases a; cases b; cases "snd a") auto

subsection \<open>Snapshots outside the data contract\<close>

lemma carbon_missing:
  "current_data CarbonEmission = None \<Longrightarrow>
   snd (check_carbon_emission_alerts thr current_data trend_data) \<noteq> None"
  by (simp add: check_carbon_emission_alerts_def with_field_def raise_def)

lemma energy_missing:
  "current_data EnergyEfficiency = None \<or> current_data EnergyConsumption = None
     \<or> current_data RenewableRatio = None \<Longrightarrow>
   snd (check_energy_alerts thr current_data trend_data) \<noteq> None"
  by (auto simp add: check_energy_alerts_def with_field_def raise_def split: option.splits)

lemma equipment_missing:
  "current_data Terminal1Power = None \<or> current_data Terminal2Power = None
     \<or> current_data Terminal3Power = None \<Longrightarrow>
   snd (check_equipment_alerts current_data) \<noteq> None"
  by (auto simp add: check_equipment_alerts_def with_field_def raise_def split: option.splits)

lemma environmental_missing:
  "current_data WeatherWindSpeed = None \<or> current_data AirQualityAqi = None \<Longrightarrow>
   snd (check_environmental_alerts current_data) \<noteq> None"
  by (auto simp add: check_environmental_alerts_def with_field_def raise_def split: option.splits)

lemma operational_missing:
  "current_data VesselCount = None \<Longrightarrow>
   snd (check_operational_alerts thr current_data trend_data) \<noteq> None"
  by (simp add: check_operational_alerts_def with_field_def raise_def)

lemma esg_missing:
  "current_data EsgScore = None \<Longrightarrow> snd (check_esg_alerts thr current_data) \<noteq> None"
  by (simp add: check_esg_alerts_def with_field_def raise_def)

lemma run_checks_snd_None:
  "snd (run_checks thr now current_data trend_data) = None \<Longrightarrow>
   snd (check_carbon_emission_alerts thr current_data trend_data) = None
   \<and> snd (check_energy_alerts thr current_data trend_data) = None
   \<and> snd (check_equipment_alerts current_data) = None
   \<and> snd (check_environmental_alerts current_data) = None
   \<and> snd (check_operational_alerts thr current_data trend_data) = None
   \<and> snd (check_esg_alerts thr current_data) = None
   \<and> snd (check_predictive_alerts thr now trend_data) = None"
  by (simp add: run_checks_def then_do_snd split: if_splits)

lemma run_checks_missing:
  assumes "k \<noteq> Timestamp" and "current_data k = None"
  shows "snd (run_checks thr now current_data trend_data) \<noteq> None"
proof
  assume "snd (run_checks thr now current_data trend_data) = None"
  note none = run_checks_snd_None [OF this]
  show False
  proof (cases k)
    case Timestamp
    with assms show ?thesis by simp
  next
    case CarbonEmission
    with assms none carbon_missing [of current_data thr trend_data] show ?thesis by auto
  next
    case EnergyConsumption
    with assms none energy_missing [of current_data thr trend_data] show ?thesis by auto
  next
    case EnergyEfficiency
    with assms none energy_missing [of current_data thr trend_data] show ?thesis by auto
  next
    case VesselCount
    with assms none operational_missing [of current_data thr trend_data] show ?thesis by auto
  next
    case RenewableRatio
    with assms none energy_missing [of current_data thr trend_data] show ?thesis by auto
  next
    case EsgScore
    with assms none esg_missing [of current_data thr] show ?thesis by auto
  next
    case Terminal1Power
    with assms none equipment_missing [of current_data] show ?thesis by auto
  next
    case Terminal2Power
    with assms none equipment_missing [of current_data] show ?thesis by auto
  next
    case Terminal3Power
    with assms none equipment_missing [of current_data] show ?thesis by auto
  next
    case WeatherWindSpeed
    with assms none environmental_missing [of current_data] show ?thesis by auto
  next
    case AirQualityAqi
    with assms none environmental_missing [of current_data] show ?thesis by auto
  qed
qed

lemma quiet_run:
  "run_checks ALERT_THRESHOLDS now quiet_snapshot [] = ([], None)"
  by (simp add: run_checks_def check_carbon_emission_alerts_def carbon_level_def carbon_trend_def
      check_energy_alerts_def efficiency_low_def consumption_spike_def renewable_low_def
      check_equipment_alerts_def terminal_power_def check_environmental_alerts_def
      strong_wind_def air_quality_def check_operational_alerts_def congestion_def
      vessel_trend_def check_esg_alerts_def check_predictive_alerts_def
      with_field_def emit_def done_nothing_def raise_def quiet_snapshot_def ALERT_THRESHOLDS_def)

lemma low_renewable_run:
  "run_checks ALERT_THRESHOLDS now (quiet_snapshot(RenewableRatio := Some v)) [] =
     (if v < 15 then [\<lparr>atype = Info, priority = Low, message = RenewableLowMsg v 15,
                        timestamp = 0, category = Renewable\<rparr>] else [], None)"
  by (simp add: run_checks_def check_carbon_emission_alerts_def carbon_level_def carbon_trend_def
      check_energy_alerts_def efficiency_low_def consumption_spike_def renewable_low_def
      check_equipment_alerts_def terminal_power_def check_environmental_alerts_def
      strong_wind_def air_quality_def check_operational_alerts_def congestion_def
      vessel_trend_def check_esg_alerts_def check_predictive_alerts_def
      with_field_def emit_def done_nothing_def raise_def quiet_snapshot_def ALERT_THRESHOLDS_def)

text \<open>
  Claim C3, as the code has it. The engine validates nothing; what rejects a snapshot is
  the dict lookup. A snapshot without one of the eleven readings makes the evaluation
  cycle raise: no alert list is returned and the alert history is left as it was. (The
  timestamp is looked up only when an alert is built.)
\<close>

theorem missing_field_rejected:
  assumes "k \<noteq> Timestamp" and "current_data k = None"
  shows "isl (fst (analyze_and_generate_alerts thr now current_data trend_data eng))
         \<and> alert_history (snd (analyze_and_generate_alerts thr now current_data trend_data eng))
             = alert_history eng"
proof -
  obtain alerts e where "run_checks thr now current_data trend_data = (alerts, Some e)"
    using assms run_checks_missing [of k current_data thr now trend_data]
    by (cases "run_checks thr now current_data trend_data") auto
  then show ?thesis
    by (simp add: analyze_and_generate_alerts_def)
qed

theorem missing_field_rejected_witness:
  "isl (fst (analyze_and_generate_alerts ALERT_THRESHOLDS 0 (quiet_snapshot(EsgScore := None)) []
          new_engine))
   \<and> alert_history (snd (analyze_and_generate_alerts ALERT_THRESHOLDS 0
          (quiet_snapshot(EsgScore := None)) [] new_engine)) = []"
  using missing_field_rejected [of EsgScore "quiet_snapshot(EsgScore := None)"
          ALERT_THRESHOLDS 0 "[]" new_engine]
  by (simp add: new_engine_def)

text \<open>
  Against the claim: a reading outside its documented range is not rejected. The
  renewable ratio -5 is compared as it is, and the cycle returns the low-renewable alert
  computed from it and records it in the history.
\<close>

theorem out_of_range_counterexample:
  "analyze_and_generate_alerts ALERT_THRESHOLDS 0 (quiet_snapshot(RenewableRatio := Some (- 5))) []
     new_engine =
     (Inr [\<lparr>atype = Info, priority = Low, message = RenewableLowMsg (- 5) 15,
            timestamp = 0, category = Renewable\<rparr>],
      \<lparr>active_alerts = [\<lparr>atype = Info, priority = Low, message = RenewableLowMsg (- 5) 15,
                          timestamp = 0, category = Renewable\<rparr>],
       alert_history = [\<lparr>atype = Info, priority = Low, message = RenewableLowMsg (- 5) 15,
                          timestamp = 0, category = Renewable\<rparr>]\<rparr>)"
  by (simp add: analyze_and_generate_alerts_def low_renewable_run update_alert_history_def
      new_engine_def Let_def)

subsection \<open>The bounded alert history\<close>

lemma length_last_n: "length (last_n n xs) \<le> n"
  by (simp add: last_n_def)

lemma last_n_short: "length xs \<le> n \<Longrightarrow> last_n n xs = xs"
  by (simp add: last_n_def)

lemma update_alert_history_last_n:
  "alert_history (update_alert_history eng) = last_n 50 (alert_history eng @ active_alerts eng)"
  by (simp add: update_alert_history_def last_n_def Let_def)

lemma analyze_history:
  "alert_history (snd (analyze_and_generate_alerts thr now current_data trend_data eng)) =
     (case fst (analyze_and_generate_alerts thr now current_data trend_data eng) of
        Inl e \<Rightarrow> alert_history eng
      | Inr alerts \<Rightarrow> last_n 50 (alert_history eng @ alerts))"
  by (simp add: analyze_and_generate_alerts_def update_alert_history_last_n
      split: prod.splits option.splits)

lemma analyze_bounded:
  "length (alert_history eng) \<le> 50 \<Longrightarrow>
   length (alert_history (snd (analyze_and_generate_alerts thr now current_data trend_data eng)))
     \<le> 50"
  by (simp add: analyze_history length_last_n split: sum.splits)

lemma run_cycles_bounded:
  "length (alert_history eng) \<le> 50 \<Longrightarrow> length (alert_history (run_cycles eng cs)) \<le> 50"
proof (induction cs arbitrary: eng)
  case Nil
  then show ?case by simp
next
  case (Cons c cs)
  obtain thr now current_data trend_data where c: "c = (thr, now, current_data, trend_data)"
    by (cases c) auto
  show ?case
    unfolding c run_cycles.simps
    by (rule Cons.IH) (rule analyze_bounded [OF Cons.prems])
qed

text \<open>
  Claim C7. Starting from a new engine, after any list of evaluation cycles the alert
  history has at most 50 entries. A cycle that returns appends all its alerts to the
  history and then keeps the last 50 entries of the result (a cycle that raises leaves
  the history alone); keeping the last 50 of \<open>h\<close> drops the oldest
  \<open>length h - 50\<close> entries from the front and nothing else.
\<close>

theorem alert_history_bounded:
  "length (alert_history (run_cycles new_engine cs)) \<le> 50
   \<and> alert_history (snd (analyze_and_generate_alerts thr now current_data trend_data eng)) =
       (case fst (analyze_and_generate_alerts thr now current_data trend_data eng) of
          Inl e \<Rightarrow> alert_history eng
        | Inr alerts \<Rightarrow> last_n 50 (alert_history eng @ alerts))
   \<and> take (length h - 50) h @ last_n 50 h = h
   \<and> length (last_n 50 h) = min 50 (length h)"
  using run_cycles_bounded [of new_engine cs]
  by (simp add: analyze_history new_engine_def last_n_def)

subsection \<open>Statistics\<close>

lemma map_of_bump:
  "map_of (bump k m) k' =
     (if k' = k then Some (case map_of m k of None \<Rightarrow> 1 | Some c \<Rightarrow> c + 1) else map_of m k')"
  by (induction m) auto

lemma sum_bump: "sum_list (map snd (bump k m)) = sum_list (map snd m) + 1"
  by (induction m) auto

lemma keys_bump: "k' \<in> fst ` set (bump k m) \<longleftrightarrow> k' = k \<or> k' \<in> fst ` set m"
proof -
  have "map_of (bump k m) k' = None \<longleftrightarrow> k' \<noteq> k \<and> map_of m k' = None"
    by (simp add: map_of_bump)
  then have "k' \<notin> fst ` set (bump k m) \<longleftrightarrow> k' \<noteq> k \<and> k' \<notin> fst ` set m"
    by (simp add: map_of_eq_None_iff)
  then show ?thesis
    by blast
qed

lemma distinct_bump: "distinct (map fst m) \<Longrightarrow> distinct (map fst (bump k m))"
  by (induction m) (auto simp add: keys_bump)

text \<open>One dict of the loop on its own.\<close>

lemma count_alerts_parts:
  "count_alerts h (a, b, c) =
     (fold (\<lambda>x. bump (atype x)) h a,
      fold (\<lambda>x. bump (category x)) h b,
      fold (\<lambda>x. bump (priority x)) h c)"
  by (induction h arbitrary: a b c) auto

lemma sum_fold_bump:
  "sum_list (map snd (fold (\<lambda>x. bump (f x)) h m)) = sum_list (map snd m) + length h"
  by (induction h arbitrary: m) (auto simp add: sum_bump)

lemma distinct_fold_bump:
  "distinct (map fst m) \<Longrightarrow> distinct (map fst (fold (\<lambda>x. bump (f x)) h m))"
  by (induction h arbitrary: m) (auto simp add: distinct_bump)

lemma map_of_fold_bump:
  "map_of (fold (\<lambda>x. bump (f x)) h m) k =
     (case map_of m k of
        None \<Rightarrow> if count_list (map f h) k = 0 then None else Some (count_list (map f h) k)
      | Some c \<Rightarrow> Some (c + count_list (map f h) k))"
  by (induction h arbitrary: m) (auto simp add: map_of_bump split: option.splits)

lemma stats_example:
  "get_alert_statistics
       \<lparr>active_alerts = [],
        alert_history =
          [\<lparr>atype = Warning, priority = High, message = CongestionMsg 260,
             timestamp = 0, category = Operation\<rparr>,
           \<lparr>atype = Info, priority = Low, message = RenewableLowMsg 5 15,
             timestamp = 0, category = Renewable\<rparr>,
           \<lparr>atype = Warning, priority = Medium, message = StrongWindMsg 21,
             timestamp = 1, category = Weather\<rparr>]\<rparr> =
       [(''total'', Total 3),
        (''by_type'', ByType [(Warning, 2), (Info, 1)]),
        (''by_category'', ByCategory [(Operation, 1), (Renewable, 1), (Weather, 1)]),
        (''by_priority'', ByPriority [(High, 1), (Low, 1), (Medium, 1)])]"
  by (simp add: get_alert_statistics_def)

text \<open>
  Claim C8, as the code has it. \<^verbatim>\<open>get_alert_statistics\<close> is a total function of the
  engine (the alerts of the history were built by the engine and carry every field, so no
  lookup can fail). Over an empty history it returns the empty dict \<^verbatim>\<open>{}\<close>, which has
  no entry at all; over a non-empty history it returns the four entries, where
  \<open>total\<close> is the length of the history and each of \<open>by_type\<close>, \<open>by_category\<close> and
  \<open>by_priority\<close> maps every value occurring in the history to the number of its alerts
  with that value, and has no other key (and no key twice).
\<close>

theorem statistics_grouped:
  "get_alert_statistics eng =
     (if alert_history eng = [] then []
      else [(''total'', Total (length (alert_history eng))),
            (''by_type'', ByType (fst (count_alerts (alert_history eng) ([], [], [])))),
            (''by_category'',
               ByCategory (fst (snd (count_alerts (alert_history eng) ([], [], []))))),
            (''by_priority'',
               ByPriority (snd (snd (count_alerts (alert_history eng) ([], [], [])))))])
   \<and> map_of (fst (count_alerts h ([], [], []))) t =
       (if count_list (map atype h) t = 0 then None else Some (count_list (map atype h) t))
   \<and> map_of (fst (snd (count_alerts h ([], [], [])))) c =
       (if count_list (map category h) c = 0 then None
        else Some (count_list (map category h) c))
   \<and> map_of (snd (snd (count_alerts h ([], [], [])))) p =
       (if count_list (map priority h) p = 0 then None
        else Some (count_list (map priority h) p))
   \<and> distinct (map fst (fst (count_alerts h ([], [], []))))
   \<and> distinct (map fst (fst (snd (count_alerts h ([], [], [])))))
   \<and> distinct (map fst (snd (snd (count_alerts h ([], [], [])))))"
  by (simp add: get_alert_statistics_def count_alerts_parts map_of_fold_bump distinct_fold_bump)

text \<open>
  Against the claim: the statistics of a new engine have no \<open>total\<close> entry equal to 0
  and no empty \<open>by_type\<close> entry; \<^verbatim>\<open>stats['total']\<close> would raise.
\<close>

theorem empty_statistics_counterexample:
  "get_alert_statistics new_engine = []
   \<and> map_of (get_alert_statistics new_engine) ''total'' \<noteq> Some (Total 0)
   \<and> map_of (get_alert_statistics new_engine) ''by_type'' \<noteq> Some (ByType [])"
  by (simp add: get_alert_statistics_def new_engine_def)

text \<open>
  Claim C10. Over a non-empty alert history the statistics are consistent: \<open>total\<close> is
  the length of the history, and the counts of \<open>by_type\<close>, of \<open>by_category\<close> and of
  \<open>by_priority\<close> each sum to it.
\<close>

theorem statistics_consistent:
  assumes "alert_history eng \<noteq> []"
  shows "\<exists>by_type by_category by_priority.
           get_alert_statistics eng =
             [(''total'', Total (length (alert_history eng))),
              (''by_type'', ByType by_type),
              (''by_category'', ByCategory by_category),
              (''by_priority'', ByPriority by_priority)]
           \<and> sum_list (map snd by_type) = length (alert_history eng)
           \<and> sum_list (map snd by_category) = length (alert_history eng)
           \<and> sum_list (map snd by_priority) = length (alert_history eng)"
  using assms
  by (simp add: get_alert_statistics_def count_alerts_parts sum_fold_bump)

theorem statistics_consistent_witness:
  "\<exists>by_type by_category by_priority.
     get_alert_statistics
       \<lparr>active_alerts = [],
        alert_history =
          [\<lparr>atype = Warning, priority = High, message = CongestionMsg 260,
             timestamp = 0, category = Operation\<rparr>,
           \<lparr>atype = Info, priority = Low, message = RenewableLowMsg 5 15,
             timestamp = 0, category = Renewable\<rparr>,
           \<lparr>atype = Warning, priority = Medium, message = StrongWindMsg 21,
             timestamp = 1, category = Weather\<rparr>]\<rparr> =
       [(''total'', Total 3),
        (''by_type'', ByType by_type),
        (''by_category'', ByCategory by_category),
        (''by_priority'', ByPriority by_priority)]
     \<and> sum_list (map snd by_type) = 3
     \<and> sum_list (map snd by_category) = 3
     \<and> sum_list (map snd by_priority) = 3"
  using statistics_consistent [of
      "\<lparr>active_alerts = [],
        alert_history =
          [\<lparr>atype = Warning, priority = High, message = CongestionMsg 260,
             timestamp = 0, category = Operation\<rparr>,
           \<lparr>atype = Info, priority = Low, message = RenewableLowMsg 5 15,
             timestamp = 0, category = Renewable\<rparr>,
           \<lparr>atype = Warning, priority = Medium, message = StrongWindMsg 21,
             timestamp = 1, category = Weather\<rparr>]\<rparr>"]
  by (simp add: numeral_3_eq_3)

subsection \<open>How many alerts a cycle appends\<close>






















subsection \<open>Evaluating twice\<close>






end
